theory Spec2Isabelle
  imports Complex_Main "HOL-Library.Sublist"
begin

section \<open>Strings of the host language\<close>

text \<open>
  A source string is modelled as a \<^typ>\<open>string\<close>; a character stands for one UTF-16 code
  unit below 256 (the Latin-1 range). The library functions the components call
  (\<^verbatim>\<open>trim\<close>, \<^verbatim>\<open>toLowerCase\<close>, \<^verbatim>\<open>startsWith\<close>, \<^verbatim>\<open>includes\<close>) are written out for that
  range; code units from 256 on are outside the model.
\<close>

definition isWhiteSpace :: "char \<Rightarrow> bool" where
  \<comment> \<open>TAB, LF, VT, FF, CR, SPACE and NO-BREAK SPACE: what \<^verbatim>\<open>trim\<close> and \<^verbatim>\<open>parseInt\<close> strip.\<close>
  "isWhiteSpace c =
     (c = CHR 0x09 \<or> c = CHR 0x0A \<or> c = CHR 0x0B \<or> c = CHR 0x0C \<or> c = CHR 0x0D
      \<or> c = CHR 0x20 \<or> c = CHR 0xA0)"

definition trim :: "string \<Rightarrow> string" where
  "trim s = rev (dropWhile isWhiteSpace (rev (dropWhile isWhiteSpace s)))"

definition toLowerChar :: "char \<Rightarrow> char" where
  "toLowerChar c =
     (let n = (of_char c :: nat) in
      if (65 \<le> n \<and> n \<le> 90) \<or> (192 \<le> n \<and> n \<le> 214) \<or> (216 \<le> n \<and> n \<le> 222)
      then char_of (n + 32) else c)"

definition toLowerCase :: "string \<Rightarrow> string" where
  "toLowerCase s = map toLowerChar s"

definition startsWith :: "string \<Rightarrow> string \<Rightarrow> bool" where
  \<comment> \<open>\<^verbatim>\<open>s.startsWith(p)\<close>\<close>
  "startsWith s p = (take (length p) s = p)"

fun includes_str :: "string \<Rightarrow> string \<Rightarrow> bool" where
  \<comment> \<open>\<^verbatim>\<open>s.includes(p)\<close>: \<open>p\<close> occurs at some position of \<open>s\<close>\<close>
  "includes_str [] p = (p = [])"
| "includes_str (c # cs) p = (startsWith (c # cs) p \<or> includes_str cs p)"

section \<open>The location directory and the form (TravelForm)\<close>

record Location =
  city :: string
  country :: string

record FormState =
  form_city :: string
  form_country :: string
  duration :: string

definition loc :: "string \<Rightarrow> string \<Rightarrow> Location" where
  "loc c k = \<lparr>city = c, country = k\<rparr>"

definition POPULAR_LOCATIONS :: "Location list" where
  "POPULAR_LOCATIONS =
   [loc ''Paris'' ''France'', loc ''Nice'' ''France'', loc ''Lyon'' ''France'',
    loc ''Marseille'' ''France'',
    loc ''London'' ''United Kingdom'', loc ''Edinburgh'' ''United Kingdom'',
    loc ''Manchester'' ''United Kingdom'',
    loc ''New York'' ''USA'', loc ''Los Angeles'' ''USA'', loc ''San Francisco'' ''USA'',
    loc ''Chicago'' ''USA'', loc ''Miami'' ''USA'', loc ''Las Vegas'' ''USA'',
    loc ''Tokyo'' ''Japan'', loc ''Kyoto'' ''Japan'', loc ''Osaka'' ''Japan'',
    loc ''Rome'' ''Italy'', loc ''Florence'' ''Italy'', loc ''Venice'' ''Italy'',
    loc ''Milan'' ''Italy'',
    loc ''Barcelona'' ''Spain'', loc ''Madrid'' ''Spain'', loc ''Seville'' ''Spain'',
    loc ''Dubai'' ''UAE'', loc ''Abu Dhabi'' ''UAE'',
    loc ''Singapore'' ''Singapore'',
    loc ''Amsterdam'' ''Netherlands'', loc ''Rotterdam'' ''Netherlands'',
    loc ''Bangkok'' ''Thailand'', loc ''Phuket'' ''Thailand'', loc ''Chiang Mai'' ''Thailand'',
    loc ''Sydney'' ''Australia'', loc ''Melbourne'' ''Australia'',
    loc ''Istanbul'' ''Turkey'', loc ''Antalya'' ''Turkey'',
    loc ''Prague'' ''Czech Republic'',
    loc ''Vienna'' ''Austria'',
    loc ''Lisbon'' ''Portugal'', loc ''Porto'' ''Portugal'',
    loc ''Berlin'' ''Germany'', loc ''Munich'' ''Germany'', loc ''Hamburg'' ''Germany'',
    loc ''Santorini'' ''Greece'', loc ''Athens'' ''Greece'', loc ''Mykonos'' ''Greece'',
    loc ''Bali'' ''Indonesia'', loc ''Jakarta'' ''Indonesia'',
    loc ''Hong Kong'' ''China'',
    loc ''Seoul'' ''South Korea'', loc ''Busan'' ''South Korea'',
    loc ''Rio de Janeiro'' ''Brazil'', loc ''Sao Paulo'' ''Brazil'',
    loc ''Cape Town'' ''South Africa'', loc ''Johannesburg'' ''South Africa'',
    loc ''Cairo'' ''Egypt'',
    loc ''Marrakech'' ''Morocco'',
    loc ''Toronto'' ''Canada'', loc ''Vancouver'' ''Canada'', loc ''Montreal'' ''Canada'',
    loc ''Mumbai'' ''India'', loc ''Delhi'' ''India'', loc ''Jaipur'' ''India'',
    loc ''Cancun'' ''Mexico'', loc ''Mexico City'' ''Mexico'']"

text \<open>
  The component's state: the six \<^verbatim>\<open>useState\<close> cells of \<^verbatim>\<open>TravelForm\<close>. A handler is a
  function from the state it closes over to the state after its setters have run.
\<close>

record TravelForm =
  formData :: FormState
  activeField :: "string option"
  citySuggestions :: "Location list"
  countrySuggestions :: "string list"
  showCityDropdown :: bool
  showCountryDropdown :: bool

definition initialTravelForm :: TravelForm where
  "initialTravelForm =
     \<lparr>formData = \<lparr>form_city = [], form_country = [], duration = []\<rparr>,
      activeField = None, citySuggestions = [], countrySuggestions = [],
      showCityDropdown = False, showCountryDropdown = False\<rparr>"

definition handleCityChange :: "TravelForm \<Rightarrow> string \<Rightarrow> TravelForm" where
  "handleCityChange st v =
     (let st1 = st\<lparr>formData := (formData st)\<lparr>form_city := v\<rparr>\<rparr> in
      if length (trim v) > 0 then
        let filtered = filter (\<lambda>l.
              let matchCity = startsWith (toLowerCase (city l)) (toLowerCase v);
                  matchCountry =
                    (if form_country (formData st) \<noteq> []
                     then toLowerCase (country l) = toLowerCase (form_country (formData st))
                        \<or> includes_str (toLowerCase (country l))
                             (toLowerCase (form_country (formData st)))
                     else True)
              in matchCity \<and> matchCountry) POPULAR_LOCATIONS
        in st1\<lparr>citySuggestions := filtered, showCityDropdown := True\<rparr>
      else st1\<lparr>citySuggestions := [], showCityDropdown := False\<rparr>)"

definition add_to_set :: "string list \<Rightarrow> string \<Rightarrow> string list" where
  \<comment> \<open>\<^verbatim>\<open>Set.prototype.add\<close>, the set kept as its elements in insertion order\<close>
  "add_to_set seen x = (if x \<in> set seen then seen else seen @ [x])"

definition array_from_new_Set :: "string list \<Rightarrow> string list" where
  \<comment> \<open>\<^verbatim>\<open>Array.from(new Set(xs))\<close>\<close>
  "array_from_new_Set xs = foldl add_to_set [] xs"

definition handleCountryChange :: "TravelForm \<Rightarrow> string \<Rightarrow> TravelForm" where
  "handleCountryChange st v =
     (let st1 = st\<lparr>formData := (formData st)\<lparr>form_country := v\<rparr>\<rparr> in
      if length (trim v) > 0 then
        let uniqueCountries = array_from_new_Set
              (filter (\<lambda>c. startsWith (toLowerCase c) (toLowerCase v))
                 (map country POPULAR_LOCATIONS))
        in st1\<lparr>countrySuggestions := uniqueCountries, showCountryDropdown := True\<rparr>
      else st1\<lparr>countrySuggestions := [], showCountryDropdown := False\<rparr>)"

definition selectCity :: "TravelForm \<Rightarrow> string \<Rightarrow> string \<Rightarrow> TravelForm" where
  "selectCity st c k =
     st\<lparr>formData := (formData st)\<lparr>form_city := c, form_country := k\<rparr>,
        showCityDropdown := False, showCountryDropdown := False\<rparr>"

definition selectCountry :: "TravelForm \<Rightarrow> string \<Rightarrow> TravelForm" where
  "selectCountry st k =
     st\<lparr>formData := (formData st)\<lparr>form_country := k\<rparr>, showCountryDropdown := False\<rparr>"

definition handleCityFocus :: "TravelForm \<Rightarrow> TravelForm" where
  "handleCityFocus st =
     (let st1 = st\<lparr>activeField := Some ''city''\<rparr> in
      if form_country (formData st) \<noteq> [] \<and> form_city (formData st) = [] then
        st1\<lparr>citySuggestions :=
               filter (\<lambda>l. toLowerCase (country l) = toLowerCase (form_country (formData st)))
                 POPULAR_LOCATIONS,
            showCityDropdown := True\<rparr>
      else if form_city (formData st) \<noteq> [] then st1\<lparr>showCityDropdown := True\<rparr>
      else st1)"

text \<open>
  \<^verbatim>\<open>handleSubmit\<close> returns the state after its three setters and the argument of the
  \<^verbatim>\<open>onSubmit\<close> call it makes, \<open>None\<close> when it makes none. The handler has no \<^verbatim>\<open>throw\<close>
  and calls nothing that raises, so its result has no error branch.
\<close>

definition handleSubmit :: "TravelForm \<Rightarrow> TravelForm \<times> FormState option" where
  "handleSubmit st =
     (let st1 = st\<lparr>showCityDropdown := False, showCountryDropdown := False,
                   activeField := None\<rparr> in
      if trim (form_city (formData st)) \<noteq> [] \<and> trim (form_country (formData st)) \<noteq> []
      then (st1, Some (formData st))
      else (st1, None))"

section \<open>Numbers read from strings\<close>

text \<open>
  \<^verbatim>\<open>parseInt(s)\<close> with no radix: leading white space is skipped, one sign is read, a
  prefix \<^verbatim>\<open>0x\<close> or \<^verbatim>\<open>0X\<close> selects radix 16, and the longest run of digits that follows is
  the value; with no digit the result is \<^verbatim>\<open>NaN\<close>, here \<open>None\<close>. The value is an
  unbounded integer: the rounding of the host's numbers above \<open>2 ^ 53\<close> is not modelled.
\<close>

definition digitValue :: "char \<Rightarrow> nat option" where
  "digitValue c =
     (let n = (of_char c :: nat) in
      if 48 \<le> n \<and> n \<le> 57 then Some (n - 48)
      else if 97 \<le> n \<and> n \<le> 122 then Some (n - 87)
      else if 65 \<le> n \<and> n \<le> 90 then Some (n - 55)
      else None)"

definition isRadixDigit :: "nat \<Rightarrow> char \<Rightarrow> bool" where
  "isRadixDigit R c = (case digitValue c of None \<Rightarrow> False | Some d \<Rightarrow> d < R)"

definition radixValue :: "nat \<Rightarrow> string \<Rightarrow> nat" where
  "radixValue R Z =
     foldl (\<lambda>a c. a * R + (case digitValue c of None \<Rightarrow> 0 | Some d \<Rightarrow> d)) 0 Z"

definition parseInt :: "string \<Rightarrow> int option" where
  "parseInt str =
     (let S0 = dropWhile isWhiteSpace str;
          sign = (if S0 \<noteq> [] \<and> hd S0 = CHR ''-'' then - 1 else (1 :: int));
          S1 = (if S0 \<noteq> [] \<and> (hd S0 = CHR ''+'' \<or> hd S0 = CHR ''-'') then tl S0 else S0);
          stripPrefix = (take 2 S1 = ''0x'' \<or> take 2 S1 = ''0X'');
          R = (if stripPrefix then 16 else 10);
          S2 = (if stripPrefix then drop 2 S1 else S1);
          Z = takeWhile (isRadixDigit R) S2
      in if Z = [] then None else Some (sign * int (radixValue R Z)))"

definition numDays_of :: "string \<Rightarrow> int" where
  \<comment> \<open>\<^verbatim>\<open>parseInt(duration) || 1\<close>: \<^verbatim>\<open>NaN\<close> and \<open>0\<close> are the falsy numbers\<close>
  "numDays_of duration_arg =
     (case parseInt duration_arg of None \<Rightarrow> 1 | Some n \<Rightarrow> if n = 0 then 1 else n)"

section \<open>The form's native validation\<close>

text \<open>
  The three inputs of the form are \<^verbatim>\<open>required\<close>, the duration input has
  \<^verbatim>\<open>type="number" min="1" max="14"\<close> and the form has no \<^verbatim>\<open>noValidate\<close>: the host checks
  these constraints when the user submits, and fires the submit event, which runs
  \<^verbatim>\<open>handleSubmit\<close>, only when all hold. The value of a number input is a decimal literal
  (an optional minus sign, digits, an optional fraction, an optional exponent); any other
  text is no number, and the input then counts as empty. The literal's value is exact
  here: the host's rounding to a double is not modelled. With no \<^verbatim>\<open>step\<close> attribute the
  step is 1, counted from \<^verbatim>\<open>min\<close>. The form is taken not to be loading, its controls
  enabled.
\<close>

definition isDigit :: "char \<Rightarrow> bool" where
  "isDigit c = (let n = (of_char c :: nat) in 48 \<le> n \<and> n \<le> 57)"

definition exponentOf :: "string \<Rightarrow> int option" where
  \<comment> \<open>what follows the digits of a literal: nothing, or \<open>e\<close>, an optional sign and digits\<close>
  "exponentOf r =
     (if r = [] then Some 0
      else if hd r = CHR ''e'' \<or> hd r = CHR ''E'' then
        (let r1 = tl r;
             neg = (r1 \<noteq> [] \<and> hd r1 = CHR ''-'');
             ds = (if r1 \<noteq> [] \<and> (hd r1 = CHR ''-'' \<or> hd r1 = CHR ''+'') then tl r1 else r1)
         in if ds \<noteq> [] \<and> list_all isDigit ds
            then Some (if neg then - int (radixValue 10 ds) else int (radixValue 10 ds))
            else None)
      else None)"

definition valueAsNumber :: "string \<Rightarrow> real option" where
  \<comment> \<open>the number a number input reads from its value, \<open>None\<close> when the text is not a
     valid literal\<close>
  "valueAsNumber v =
     (let neg = (v \<noteq> [] \<and> hd v = CHR ''-'');
          s1 = (if neg then tl v else v);
          ip = takeWhile isDigit s1;
          r1 = dropWhile isDigit s1;
          hasFraction = (r1 \<noteq> [] \<and> hd r1 = CHR ''.'');
          fp = (if hasFraction then takeWhile isDigit (tl r1) else []);
          r2 = (if hasFraction then dropWhile isDigit (tl r1) else r1)
      in if (if hasFraction then fp = [] else ip = []) then None
         else (case exponentOf r2 of
                 None \<Rightarrow> None
               | Some e \<Rightarrow>
                   (let m = real (radixValue 10 ip) + real (radixValue 10 fp) / 10 ^ length fp;
                        x = (if 0 \<le> e then m * 10 ^ nat e else m / 10 ^ nat (- e))
                    in Some (if neg then - x else x))))"

definition durationInputValid :: "string \<Rightarrow> bool" where
  \<comment> \<open>\<^verbatim>\<open>required\<close>, \<^verbatim>\<open>min="1"\<close>, \<^verbatim>\<open>max="14"\<close> and the step 1 from 1\<close>
  "durationInputValid v =
     (case valueAsNumber v of
        None \<Rightarrow> False
      | Some x \<Rightarrow> 1 \<le> x \<and> x \<le> 14 \<and> of_int \<lfloor>x - 1\<rfloor> = x - 1)"

definition checkValidity :: "FormState \<Rightarrow> bool" where
  "checkValidity fd =
     (form_city fd \<noteq> [] \<and> form_country fd \<noteq> [] \<and> durationInputValid (duration fd))"

definition submitForm :: "TravelForm \<Rightarrow> TravelForm \<times> FormState option" where
  \<comment> \<open>the user submits the form: the submit event is fired only for a valid form\<close>
  "submitForm st = (if checkValidity (formData st) then handleSubmit st else (st, None))"

section \<open>Values of the host language\<close>

text \<open>
  The parsed response is untyped at run time, so it is a value of \<open>jsval\<close>; an object is
  the list of its own properties (keys distinct, as \<^verbatim>\<open>JSON.parse\<close> leaves them). Numbers
  are reals: \<^verbatim>\<open>NaN\<close> does not occur in parsed JSON.
\<close>

datatype jsval =
    JUndefined
  | JNull
  | JBool bool
  | JNum real
  | JStr string
  | JArr "jsval list"
  | JObj "(string \<times> jsval) list"

datatype js_error = RequestFailed string | NoTextReturned | SyntaxError | TypeError

fun truthy :: "jsval \<Rightarrow> bool" where
  "truthy JUndefined = False"
| "truthy JNull = False"
| "truthy (JBool b) = b"
| "truthy (JNum x) = (x \<noteq> 0)"
| "truthy (JStr s) = (s \<noteq> [])"
| "truthy (JArr xs) = True"
| "truthy (JObj kvs) = True"

definition js_or :: "jsval \<Rightarrow> jsval \<Rightarrow> jsval" where
  \<comment> \<open>\<^verbatim>\<open>a || b\<close>\<close>
  "js_or a b = (if truthy a then a else b)"

fun isArray :: "jsval \<Rightarrow> bool" where
  \<comment> \<open>\<^verbatim>\<open>Array.isArray\<close>\<close>
  "isArray (JArr xs) = True"
| "isArray v = False"

fun getProp :: "jsval \<Rightarrow> string \<Rightarrow> jsval" where
  \<comment> \<open>\<^verbatim>\<open>v.k\<close> for \<open>v\<close> neither \<^verbatim>\<open>null\<close> nor \<^verbatim>\<open>undefined\<close> and \<open>k\<close> one of the guide's
     field names: a number, a string, a boolean and an array have no such property\<close>
  "getProp (JObj kvs) k = (case map_of kvs k of None \<Rightarrow> JUndefined | Some v \<Rightarrow> v)"
| "getProp v k = JUndefined"

section \<open>The generative service (geminiService)\<close>

text \<open>
  The service is a parameter \<open>ai\<close>: a function from a request to the promise's outcome,
  \<open>Inl\<close> a rejection. A request is identified by the values its prompt template
  interpolates; the fixed text around them is not modelled. \<^verbatim>\<open>JSON.parse\<close> is a parameter
  too, \<open>Inl\<close> when it throws.
\<close>

datatype request =
    GuideRequest string string string int
  | CityImageRequest string string
  | LandmarkRequest string string
  | FoodRequest string string
  | StreetLifeRequest string string

record inlineData =
  mimeType :: "string option"
  data :: "string option"

record part =
  part_inlineData :: "inlineData option"

record response =
  response_text :: "string option"
  parts :: "part list option"

record CityGuideData =
  guide_city :: jsval
  guide_country :: jsval
  coordinates :: jsval
  introduction :: jsval
  weather :: jsval
  attractions :: jsval
  mapContext :: jsval
  itinerary :: jsval
  localTips :: jsval
  imageUrl :: "string option"
  gallery :: "string list option"

definition defaultWeather :: jsval where
  "defaultWeather =
     JObj [(''temperature'', JStr ''N/A''), (''condition'', JStr ''Unknown''),
           (''packingSuggestion'', JStr ''Please check local forecast.'')]"

definition defaultCoordinates :: jsval where
  "defaultCoordinates = JObj [(''lat'', JNum 0), (''lng'', JNum 0)]"

text \<open>
  The \<^verbatim>\<open>responseSchema\<close> sent with the guide request, and what it means for a value to
  have every property of a schema, each of the declared type.
\<close>

datatype schema = STRING | NUMBER | ARRAY schema | OBJECT "(string \<times> schema) list"

definition coordinatesSchema :: schema where
  "coordinatesSchema = OBJECT [(''lat'', NUMBER), (''lng'', NUMBER)]"

definition responseSchema :: schema where
  "responseSchema =
     OBJECT
      [(''city'', STRING),
       (''country'', STRING),
       (''coordinates'', coordinatesSchema),
       (''introduction'', STRING),
       (''weather'',
          OBJECT [(''temperature'', STRING), (''condition'', STRING),
                  (''packingSuggestion'', STRING)]),
       (''attractions'',
          ARRAY (OBJECT [(''name'', STRING), (''benefit'', STRING),
                         (''coordinates'', coordinatesSchema)])),
       (''mapContext'', STRING),
       (''itinerary'',
          ARRAY (OBJECT [(''day'', NUMBER), (''theme'', STRING),
                         (''activities'',
                            ARRAY (OBJECT [(''time'', STRING), (''activity'', STRING)]))])),
       (''localTips'', ARRAY (OBJECT [(''category'', STRING), (''tip'', STRING)]))]"

fun conforms :: "schema \<Rightarrow> jsval \<Rightarrow> bool" where
  "conforms STRING v = (case v of JStr s \<Rightarrow> True | _ \<Rightarrow> False)"
| "conforms NUMBER v = (case v of JNum x \<Rightarrow> True | _ \<Rightarrow> False)"
| "conforms (ARRAY sch) v = (case v of JArr xs \<Rightarrow> list_all (conforms sch) xs | _ \<Rightarrow> False)"
| "conforms (OBJECT fs) v =
     (case v of
        JObj kvs \<Rightarrow>
          list_all (\<lambda>f. case map_of kvs (fst f) of
                            None \<Rightarrow> False
                          | Some x \<Rightarrow> conforms (snd f) x) fs
      | _ \<Rightarrow> False)"

definition safeData :: "string \<Rightarrow> string \<Rightarrow> jsval \<Rightarrow> js_error + CityGuideData" where
  \<comment> \<open>the object literal built from \<open>parsedData\<close>; reading a property of \<^verbatim>\<open>null\<close> throws\<close>
  "safeData city_arg country_arg parsedData =
     (if parsedData = JNull \<or> parsedData = JUndefined then Inl TypeError
      else Inr
        \<lparr>guide_city = js_or (getProp parsedData ''city'') (JStr city_arg),
         guide_country = js_or (getProp parsedData ''country'') (JStr country_arg),
         coordinates = js_or (getProp parsedData ''coordinates'') defaultCoordinates,
         introduction =
           js_or (getProp parsedData ''introduction'') (JStr ''Information currently unavailable.''),
         weather = js_or (getProp parsedData ''weather'') defaultWeather,
         attractions =
           (if isArray (getProp parsedData ''attractions'') then getProp parsedData ''attractions''
            else JArr []),
         mapContext = js_or (getProp parsedData ''mapContext'') (JStr ''Map details unavailable.''),
         itinerary =
           (if isArray (getProp parsedData ''itinerary'') then getProp parsedData ''itinerary''
            else JArr []),
         localTips =
           (if isArray (getProp parsedData ''localTips'') then getProp parsedData ''localTips''
            else JArr []),
         imageUrl = None,
         gallery = None\<rparr>)"

definition generateCityGuide ::
  "(request \<Rightarrow> js_error + response) \<Rightarrow> (string \<Rightarrow> js_error + jsval) \<Rightarrow> string \<Rightarrow>
   string \<Rightarrow> string \<Rightarrow> string \<Rightarrow> js_error + CityGuideData" where
  "generateCityGuide ai JSON_parse currentDate city_arg country_arg duration_arg =
     (let numDays = numDays_of duration_arg in
      case ai (GuideRequest currentDate city_arg country_arg numDays) of
        Inl e \<Rightarrow> Inl e
      | Inr resp \<Rightarrow>
          (case response_text resp of
             None \<Rightarrow> Inl NoTextReturned
           | Some jsonText \<Rightarrow>
               if jsonText = [] then Inl NoTextReturned
               else (case JSON_parse jsonText of
                       Inl e \<Rightarrow> Inl e
                     | Inr parsedData \<Rightarrow> safeData city_arg country_arg parsedData)))"

fun inlineImage :: "part list \<Rightarrow> string option" where
  \<comment> \<open>the loop over the parts: the data URL of the first part that has inline data\<close>
  "inlineImage [] = None"
| "inlineImage (p # ps) =
     (case part_inlineData p of
        None \<Rightarrow> inlineImage ps
      | Some d \<Rightarrow>
          (case data d of
             None \<Rightarrow> inlineImage ps
           | Some b \<Rightarrow>
               if b = [] then inlineImage ps
               else Some (''data:'' @ (case mimeType d of None \<Rightarrow> ''undefined'' | Some m \<Rightarrow> m)
                          @ '';base64,'' @ b)))"

definition imageOf :: "(request \<Rightarrow> js_error + response) \<Rightarrow> request \<Rightarrow> string option" where
  \<comment> \<open>one image request inside its \<^verbatim>\<open>try\<close>: a rejection and a response with no image are
     both \<^verbatim>\<open>undefined\<close>\<close>
  "imageOf ai req =
     (case ai req of
        Inl e \<Rightarrow> None
      | Inr resp \<Rightarrow> (case parts resp of None \<Rightarrow> None | Some ps \<Rightarrow> inlineImage ps))"

definition generateCityImage ::
  "(request \<Rightarrow> js_error + response) \<Rightarrow> string \<Rightarrow> string \<Rightarrow> string option" where
  "generateCityImage ai city_arg country_arg = imageOf ai (CityImageRequest city_arg country_arg)"

definition generateCityGallery ::
  "(request \<Rightarrow> js_error + response) \<Rightarrow> string \<Rightarrow> string \<Rightarrow> string list" where
  "generateCityGallery ai city_arg country_arg =
     (let prompts = [LandmarkRequest city_arg country_arg, FoodRequest city_arg country_arg,
                     StreetLifeRequest city_arg country_arg];
          results = map (imageOf ai) prompts
      in map the (filter (\<lambda>img. img \<noteq> None) results))"

section \<open>The application (App)\<close>

record App =
  app_data :: "CityGuideData option"
  loading :: bool
  error :: "string option"

definition handleFormSubmit ::
  "(request \<Rightarrow> js_error + response) \<Rightarrow> (string \<Rightarrow> js_error + jsval) \<Rightarrow> string \<Rightarrow>
   App \<Rightarrow> FormState \<Rightarrow> App" where
  \<comment> \<open>the state once the handler has settled; \<^verbatim>\<open>Promise.all\<close> rejects exactly when the guide
     request does, the two image functions never reject\<close>
  "handleFormSubmit ai JSON_parse currentDate st fd =
     (let st1 = st\<lparr>loading := True, error := None\<rparr>;
          imageUrl_r = generateCityImage ai (form_city fd) (form_country fd);
          galleryImages = generateCityGallery ai (form_city fd) (form_country fd)
      in case generateCityGuide ai JSON_parse currentDate
                (form_city fd) (form_country fd) (duration fd) of
           Inl err \<Rightarrow>
             st1\<lparr>error := Some ''Failed to generate guide. Please check your API key and try again.'',
                 loading := False\<rparr>
         | Inr guideData \<Rightarrow>
             st1\<lparr>app_data := Some (guideData\<lparr>imageUrl := imageUrl_r,
                                                gallery := Some galleryImages\<rparr>),
                 loading := False\<rparr>)"

section \<open>The result view (ResultView)\<close>

datatype TabType = weather_tab | attractions_tab | map_tab | itinerary_tab | tips_tab | photos_tab

datatype MapStyle = street | satellite

text \<open>
  The map widget is a third-party object of type \<open>'m\<close>; its \<^verbatim>\<open>setView\<close> is a parameter
  that may throw. \<open>mapRef\<close> is the mutable reference the component keeps to it, \<open>None\<close>
  while no map is mounted.
\<close>

record 'm ResultView =
  activeTab :: TabType
  mapStyle :: MapStyle
  mapRef :: "'m option"

definition jumpToMap_timeout ::
  "('m \<Rightarrow> real \<Rightarrow> real \<Rightarrow> nat \<Rightarrow> js_error + 'm) \<Rightarrow> real \<Rightarrow> real \<Rightarrow>
   'm ResultView \<Rightarrow> js_error + 'm ResultView" where
  \<comment> \<open>the callback handed to \<^verbatim>\<open>setTimeout\<close>, run on the state it finds when it fires\<close>
  "jumpToMap_timeout setView lat lng st =
     (case mapRef st of
        None \<Rightarrow> Inr st
      | Some m \<Rightarrow>
          (case setView m lat lng 15 of
             Inl e \<Rightarrow> Inl e
           | Inr m' \<Rightarrow> Inr (st\<lparr>mapRef := Some m'\<rparr>)))"

definition jumpToMap ::
  "('m \<Rightarrow> real \<Rightarrow> real \<Rightarrow> nat \<Rightarrow> js_error + 'm) \<Rightarrow> 'm ResultView \<Rightarrow> real \<Rightarrow> real \<Rightarrow>
   'm ResultView \<times> (nat \<times> ('m ResultView \<Rightarrow> js_error + 'm ResultView)) list" where
  \<comment> \<open>the state after \<^verbatim>\<open>setActiveTab\<close> and the timers scheduled: delay in ms and callback\<close>
  "jumpToMap setView st lat lng =
     (st\<lparr>activeTab := map_tab\<rparr>, [(100, jumpToMap_timeout setView lat lng)])"

section \<open>Vocabulary of the statements\<close>

definition first_index :: "'a list \<Rightarrow> 'a \<Rightarrow> nat" where
  \<comment> \<open>the position at which \<open>x\<close> is first seen in \<open>xs\<close>\<close>
  "first_index xs x = length (takeWhile (\<lambda>y. y \<noteq> x) xs)"

definition durationInRange :: "string \<Rightarrow> bool" where
  \<comment> \<open>the text parses to an integer from 1 to 14\<close>
  "durationInRange d = (case parseInt d of None \<Rightarrow> False | Some n \<Rightarrow> 1 \<le> n \<and> n \<le> 14)"

section \<open>Inputs used in the examples\<close>

definition initialApp :: App where
  \<comment> \<open>the initial values of the three state cells of \<^verbatim>\<open>App\<close>\<close>
  "initialApp = \<lparr>app_data = None, loading = False, error = None\<rparr>"

definition example_response :: "string \<Rightarrow> jsval" where
  \<comment> \<open>a parsed guide with every property of the schema, its introduction as given\<close>
  "example_response intro =
     JObj [(''city'', JStr ''Rome''), (''country'', JStr ''Italy''),
       (''coordinates'', JObj [(''lat'', JNum 41.9), (''lng'', JNum 12.5)]),
       (''introduction'', JStr intro),
       (''weather'', JObj [(''temperature'', JStr ''18 C''), (''condition'', JStr ''Sunny''),
                  (''packingSuggestion'', JStr ''Light jacket'')]),
       (''attractions'', JArr [JObj [(''name'', JStr ''Colosseum''), (''benefit'', JStr ''History''),
                         (''coordinates'', JObj [(''lat'', JNum 41.89), (''lng'', JNum 12.49)])]]),
       (''mapContext'', JStr ''Seven hills''),
       (''itinerary'', JArr [JObj [(''day'', JNum 1), (''theme'', JStr ''Ancient Rome''),
                         (''activities'',
                            JArr [JObj [(''time'', JStr ''9:00''), (''activity'', JStr ''Forum'')]])]]),
       (''localTips'', JArr [JObj [(''category'', JStr ''food''), (''tip'', JStr ''Try carbonara'')]])]"

definition ai_text_only :: "string \<Rightarrow> request \<Rightarrow> js_error + response" where
  \<comment> \<open>a service that answers the guide request with the given text and rejects every
     image request\<close>
  "ai_text_only t req =
     (case req of
        GuideRequest d c k n \<Rightarrow> Inr \<lparr>response_text = Some t, parts = None\<rparr>
      | _ \<Rightarrow> Inl (RequestFailed ''unavailable''))"

definition image_response :: "string \<Rightarrow> response" where
  "image_response b =
     \<lparr>response_text = None,
      parts = Some [\<lparr>part_inlineData = None\<rparr>,
                    \<lparr>part_inlineData = Some \<lparr>mimeType = Some ''image/png'', data = Some b\<rparr>\<rparr>]\<rparr>"

definition ai_two_images :: "request \<Rightarrow> js_error + response" where
  \<comment> \<open>the hero image and the food image are rejected, the two other gallery images
     arrive\<close>
  "ai_two_images req =
     (case req of
        GuideRequest d c k n \<Rightarrow> Inr \<lparr>response_text = Some ''{}'', parts = None\<rparr>
      | CityImageRequest c k \<Rightarrow> Inl (RequestFailed ''quota'')
      | LandmarkRequest c k \<Rightarrow> Inr (image_response ''AAAA'')
      | FoodRequest c k \<Rightarrow> Inl (RequestFailed ''quota'')
      | StreetLifeRequest c k \<Rightarrow> Inr (image_response ''BBBB''))"

definition parse_empty_object :: "string \<Rightarrow> js_error + jsval" where
  \<comment> \<open>\<^verbatim>\<open>JSON.parse\<close> restricted to the one text the examples use\<close>
  "parse_empty_object s = (if s = ''{}'' then Inr (JObj []) else Inl SyntaxError)"

definition never_mounted :: "unit ResultView" where
  "never_mounted = \<lparr>activeTab = attractions_tab, mapStyle = street, mapRef = None\<rparr>"

definition setView_throws :: "unit \<Rightarrow> real \<Rightarrow> real \<Rightarrow> nat \<Rightarrow> js_error + unit" where
  "setView_throws m lat lng z = Inl TypeError"

section \<open>Facts about the string functions and the directory\<close>

lemma startsWith_prefix: "startsWith s p \<longleftrightarrow> prefix p s"
  unfolding startsWith_def
  by (metis append_eq_conv_conj prefix_def)

lemma includes_sublist: "includes_str s p \<longleftrightarrow> sublist p s"
  by (induction s) (auto simp: startsWith_prefix sublist_Cons_right)

lemma isWhiteSpace_code: "isWhiteSpace c \<longleftrightarrow> (of_char c :: nat) \<in> {9, 10, 11, 12, 13, 32, 160}"
proof -
  have inj: "\<And>d. c = d \<longleftrightarrow> (of_char c :: nat) = of_char d"
    by (simp add: of_char_eq_iff)
  show ?thesis
    unfolding isWhiteSpace_def by (simp add: inj)
qed

lemma ws_lower: "isWhiteSpace c \<Longrightarrow> toLowerChar c = c"
  by (auto simp: isWhiteSpace_code toLowerChar_def Let_def)

lemma lower_ws: "isWhiteSpace (toLowerChar c) \<Longrightarrow> isWhiteSpace c"
  by (auto simp: isWhiteSpace_code toLowerChar_def Let_def split: if_splits)

lemma trim_Nil_iff: "trim s = [] \<longleftrightarrow> (\<forall>c \<in> set s. isWhiteSpace c)"
proof -
  have "(\<forall>x \<in> set (dropWhile isWhiteSpace s). isWhiteSpace x) \<longleftrightarrow> dropWhile isWhiteSpace s = []"
    by (metis hd_dropWhile list.set_sel(1) empty_iff list.set(1))
  thus ?thesis
    unfolding trim_def by (simp add: dropWhile_eq_Nil_conv)
qed

lemma no_ws_city: "\<forall>l \<in> set POPULAR_LOCATIONS. city l \<noteq> [] \<and> \<not> isWhiteSpace (hd (city l))"
  by (simp add: POPULAR_LOCATIONS_def loc_def isWhiteSpace_def)

lemma no_ws_country: "\<forall>l \<in> set POPULAR_LOCATIONS. country l \<noteq> [] \<and> \<not> isWhiteSpace (hd (country l))"
  by (simp add: POPULAR_LOCATIONS_def loc_def isWhiteSpace_def)

lemma blank_not_prefix:
  assumes "v \<noteq> []" "trim v = []" "s \<noteq> []" "\<not> isWhiteSpace (hd s)"
  shows "\<not> prefix (toLowerCase v) (toLowerCase s)"
proof
  assume p: "prefix (toLowerCase v) (toLowerCase s)"
  obtain c cs where v: "v = c # cs" using assms(1) by (cases v) auto
  obtain d ds where s: "s = d # ds" using assms(3) by (cases s) auto
  have wc: "isWhiteSpace c" using assms(2) v by (simp add: trim_Nil_iff)
  hence "toLowerChar c = c" by (rule ws_lower)
  moreover have "toLowerChar c = toLowerChar d" using p v s by (simp add: toLowerCase_def)
  ultimately have "isWhiteSpace (toLowerChar d)" using wc by simp
  hence "isWhiteSpace d" by (rule lower_ws)
  thus False using assms(4) s by simp
qed

lemma array_from_new_Set_snoc:
  "array_from_new_Set (xs @ [x]) = add_to_set (array_from_new_Set xs) x"
  by (simp add: array_from_new_Set_def)

lemma set_array_from_new_Set: "set (array_from_new_Set xs) = set xs"
  by (induction xs rule: rev_induct) (auto simp: array_from_new_Set_snoc add_to_set_def array_from_new_Set_def)

lemma distinct_array_from_new_Set: "distinct (array_from_new_Set xs)"
  by (induction xs rule: rev_induct) (auto simp: array_from_new_Set_snoc add_to_set_def array_from_new_Set_def)

lemma first_index_append1: "a \<in> set xs \<Longrightarrow> first_index (xs @ ys) a = first_index xs a"
  by (simp add: first_index_def)

lemma first_index_less: "a \<in> set xs \<Longrightarrow> first_index xs a < length xs"
  by (induction xs) (auto simp: first_index_def)

lemma first_index_new: "x \<notin> set xs \<Longrightarrow> first_index (xs @ [x]) x = length xs"
  by (induction xs) (auto simp: first_index_def)

lemma first_seen_order:
  "sorted_wrt (\<lambda>a b. first_index xs a < first_index xs b) (array_from_new_Set xs)"
proof (induction xs rule: rev_induct)
  case Nil
  show ?case by (simp add: array_from_new_Set_def)
next
  case (snoc x xs)
  let ?r = "array_from_new_Set xs"
  have old: "sorted_wrt (\<lambda>a b. first_index (xs @ [x]) a < first_index (xs @ [x]) b) ?r"
    using snoc.IH
    by (rule sorted_wrt_mono_rel[rotated]) (simp add: set_array_from_new_Set first_index_append1)
  show ?case
  proof (cases "x \<in> set xs")
    case True
    then show ?thesis using old
      by (simp add: array_from_new_Set_snoc add_to_set_def set_array_from_new_Set)
  next
    case False
    have "\<forall>a \<in> set ?r. first_index (xs @ [x]) a < first_index (xs @ [x]) x"
      using False by (simp add: set_array_from_new_Set first_index_append1 first_index_less first_index_new)
    then show ?thesis using old False
      by (simp add: array_from_new_Set_snoc add_to_set_def set_array_from_new_Set sorted_wrt_append)
  qed
qed

lemma array_from_new_Set_filter:
  "array_from_new_Set (filter Q ys) = filter Q (array_from_new_Set ys)"
proof (induction ys rule: rev_induct)
  case Nil
  show ?case by (simp add: array_from_new_Set_def)
next
  case (snoc y ys)
  then show ?case
    by (simp add: array_from_new_Set_snoc add_to_set_def set_array_from_new_Set)
qed


section \<open>The autocomplete matcher\<close>

text \<open>
  Claim C6. For every non-empty text \<open>P\<close> typed into the city field while the country
  field holds \<open>C\<close>, the city suggestions are exactly the directory entries whose city
  starts with \<open>P\<close>, case folded, and, when \<open>C\<close> is not empty, whose country equals
  or contains \<open>C\<close>, case folded, in the order of the directory; with \<open>C\<close> empty they
  are exactly the case-folded prefix matches. (A non-empty \<open>P\<close> of white space only
  takes the handler's other branch, which gives no suggestion; no city of the directory
  starts with white space, so the two agree.)
\<close>

theorem handleCityChange_matches:
  assumes "P \<noteq> []"
  shows "citySuggestions (handleCityChange st P) =
           filter (\<lambda>l. prefix (toLowerCase P) (toLowerCase (city l)) \<and>
                        (form_country (formData st) \<noteq> [] \<longrightarrow>
                           toLowerCase (country l) = toLowerCase (form_country (formData st)) \<or>
                           sublist (toLowerCase (form_country (formData st)))
                             (toLowerCase (country l))))
             POPULAR_LOCATIONS
         \<and> (form_country (formData st) = [] \<longrightarrow>
              citySuggestions (handleCityChange st P) =
                filter (\<lambda>l. prefix (toLowerCase P) (toLowerCase (city l))) POPULAR_LOCATIONS)"
proof (cases "trim P = []")
  case True
  have none: "\<forall>l \<in> set POPULAR_LOCATIONS. \<not> prefix (toLowerCase P) (toLowerCase (city l))"
    using no_ws_city blank_not_prefix[OF assms True] by blast
  have "citySuggestions (handleCityChange st P) = []"
    using True by (simp add: handleCityChange_def)
  moreover have "filter (\<lambda>l. prefix (toLowerCase P) (toLowerCase (city l)) \<and> Q l) POPULAR_LOCATIONS = []" for Q
    using none by (simp add: filter_empty_conv)
  moreover have "filter (\<lambda>l. prefix (toLowerCase P) (toLowerCase (city l))) POPULAR_LOCATIONS = []"
    using none by (simp add: filter_empty_conv)
  ultimately show ?thesis by simp
next
  case False
  then show ?thesis
    by (auto simp: handleCityChange_def Let_def startsWith_prefix includes_sublist intro!: filter_cong)
qed


theorem handleCityChange_matches_witness:
  "''pa'' \<noteq> [] \<and>
   citySuggestions (handleCityChange
       (initialTravelForm\<lparr>formData := \<lparr>form_city = [], form_country = ''france'', duration = []\<rparr>\<rparr>)
       ''pa'') = [loc ''Paris'' ''France'']
   \<and> [loc ''Paris'' ''France''] =
       filter (\<lambda>l. prefix (toLowerCase ''pa'') (toLowerCase (city l)) \<and>
                    (toLowerCase (country l) = toLowerCase ''france'' \<or>
                     sublist (toLowerCase ''france'') (toLowerCase (country l))))
         POPULAR_LOCATIONS"
proof -
  let ?st = "initialTravelForm\<lparr>formData := \<lparr>form_city = [], form_country = ''france'', duration = []\<rparr>\<rparr>"
  have e: "citySuggestions (handleCityChange ?st ''pa'') = [loc ''Paris'' ''France'']"
    by code_simp
  show ?thesis
    using handleCityChange_matches[of "''pa''" ?st] e by simp
qed

text \<open>
  Claim C7. For every non-empty text \<open>P\<close> typed into the country field, the country
  suggestions hold each country name of the directory that starts with \<open>P\<close>, case
  folded, exactly once (the list is distinct and has exactly these elements), ordered by
  the position at which each name is first seen in the directory; for \<open>fr\<close> the list is
  France alone.
\<close>

theorem handleCountryChange_unique:
  assumes "P \<noteq> []"
  shows "distinct (countrySuggestions (handleCountryChange st P))
       \<and> set (countrySuggestions (handleCountryChange st P)) =
           {c \<in> country ` set POPULAR_LOCATIONS. prefix (toLowerCase P) (toLowerCase c)}
       \<and> sorted_wrt (\<lambda>a b. first_index (map country POPULAR_LOCATIONS) a
                             < first_index (map country POPULAR_LOCATIONS) b)
           (countrySuggestions (handleCountryChange st P))
       \<and> countrySuggestions (handleCountryChange st ''fr'') = [''France'']"
proof -
  let ?D = "map country POPULAR_LOCATIONS"
  let ?Q = "\<lambda>c. prefix (toLowerCase P) (toLowerCase c)"
  have r: "countrySuggestions (handleCountryChange st P) = array_from_new_Set (filter ?Q ?D)"
  proof (cases "trim P = []")
    case True
    have "\<forall>c \<in> set ?D. \<not> ?Q c"
      using no_ws_country blank_not_prefix[OF assms True] by auto
    hence "filter ?Q ?D = []" by (simp add: filter_empty_conv)
    thus ?thesis using True
      by (simp add: handleCountryChange_def array_from_new_Set_def)
  next
    case False
    thus ?thesis
      by (simp add: handleCountryChange_def startsWith_prefix)
  qed
  have d: "distinct (array_from_new_Set (filter ?Q ?D))"
    by (rule distinct_array_from_new_Set)
  have s: "set (array_from_new_Set (filter ?Q ?D)) =
             {c \<in> country ` set POPULAR_LOCATIONS. ?Q c}"
    by (auto simp: set_array_from_new_Set)
  have o: "sorted_wrt (\<lambda>a b. first_index ?D a < first_index ?D b)
             (array_from_new_Set (filter ?Q ?D))"
    unfolding array_from_new_Set_filter using first_seen_order by (rule sorted_wrt_filter)
  have "array_from_new_Set
          (filter (\<lambda>c. startsWith (toLowerCase c) (toLowerCase ''fr'')) ?D) = [''France'']"
    by code_simp
  hence fr: "countrySuggestions (handleCountryChange st ''fr'') = [''France'']"
    by (simp add: handleCountryChange_def trim_def isWhiteSpace_def)
  show ?thesis using r d s o fr by simp
qed


theorem handleCountryChange_unique_witness:
  "''u'' \<noteq> [] \<and> countrySuggestions (handleCountryChange initialTravelForm ''u'')
       = [''United Kingdom'', ''USA'', ''UAE'']
   \<and> distinct (countrySuggestions (handleCountryChange initialTravelForm ''u''))"
proof -
  have "countrySuggestions (handleCountryChange initialTravelForm ''u'')
          = [''United Kingdom'', ''USA'', ''UAE'']"
    by code_simp
  thus ?thesis
    using handleCountryChange_unique[of "''u''" initialTravelForm] by simp
qed

section \<open>The submit action\<close>

text \<open>
  Claim C8. For every form state whose city or whose country is empty once trimmed (by
  \<open>trim_Nil_iff\<close>: holds white space only), the submit action makes no call of
  \<^verbatim>\<open>onSubmit\<close>, the entry of the orchestrator; it returns a state, with the field values
  as they were, and raises nothing.
\<close>

theorem handleSubmit_rejects_blank:
  assumes "trim (form_city (formData st)) = [] \<or> trim (form_country (formData st)) = []"
  shows "snd (handleSubmit st) = None \<and> formData (fst (handleSubmit st)) = formData st"
  using assms by (auto simp: handleSubmit_def Let_def)

theorem handleSubmit_rejects_blank_witness:
  "trim ''   '' = []
   \<and> snd (handleSubmit (initialTravelForm\<lparr>formData :=
        \<lparr>form_city = ''   '', form_country = ''France'', duration = ''3''\<rparr>\<rparr>)) = None"
proof -
  have b: "trim ''   '' = []" by (simp add: trim_Nil_iff isWhiteSpace_def)
  show ?thesis
    using b handleSubmit_rejects_blank[of "initialTravelForm\<lparr>formData :=
        \<lparr>form_city = ''   '', form_country = ''France'', duration = ''3''\<rparr>\<rparr>"]
    by simp
qed

text \<open>
  Claim C10. For every form state, valid or not, the submit action closes both
  dropdowns and clears the active field; the field values and the suggestion lists are
  left as they were.
\<close>

theorem handleSubmit_closes_dropdowns:
  "\<not> showCityDropdown (fst (handleSubmit st))
   \<and> \<not> showCountryDropdown (fst (handleSubmit st))
   \<and> activeField (fst (handleSubmit st)) = None
   \<and> formData (fst (handleSubmit st)) = formData st
   \<and> citySuggestions (fst (handleSubmit st)) = citySuggestions st
   \<and> countrySuggestions (fst (handleSubmit st)) = countrySuggestions st"
  by (simp add: handleSubmit_def Let_def)

lemma isDigit_facts:
  assumes "isDigit c"
  shows "\<not> isWhiteSpace c" "c \<noteq> CHR ''-''" "c \<noteq> CHR ''+''" "c \<noteq> CHR ''x''" "c \<noteq> CHR ''X''"
    "c \<noteq> CHR ''.''" "isRadixDigit 10 c"
  using assms
  by (auto simp: isDigit_def isWhiteSpace_code isRadixDigit_def digitValue_def Let_def)

lemma valueAsNumber_digits:
  assumes "d \<noteq> []" "list_all isDigit d"
  shows "valueAsNumber d = Some (real (radixValue 10 d))"
proof -
  have h: "isDigit (hd d)" using assms by (cases d) auto
  have n: "hd d \<noteq> CHR ''-''" by (rule isDigit_facts(2)[OF h])
  have t: "takeWhile isDigit d = d" "dropWhile isDigit d = []"
    using assms(2) by (simp_all add: list_all_iff)
  have r: "radixValue 10 [] = 0" by (simp add: radixValue_def)
  show ?thesis
    unfolding valueAsNumber_def Let_def
    by (simp add: n t r assms(1) exponentOf_def)
qed

lemma parseInt_digits:
  assumes "d \<noteq> []" "list_all isDigit d"
  shows "parseInt d = Some (int (radixValue 10 d))"
proof -
  obtain c cs where d: "d = c # cs" using assms(1) by (cases d) auto
  have c: "isDigit c" and cs: "list_all isDigit cs" using assms(2) d by auto
  have hd: "hd d \<noteq> CHR ''-''" "hd d \<noteq> CHR ''+''"
    using d isDigit_facts(2,3)[OF c] by simp_all
  have w: "dropWhile isWhiteSpace d = d"
    using d isDigit_facts(1)[OF c] by simp
  have second: "cs = [] \<or> (isDigit (hd cs) \<and> cs = hd cs # tl cs)"
    using cs by (cases cs) auto
  have x: "take 2 d \<noteq> ''0x''" "take 2 d \<noteq> ''0X''"
    using second d isDigit_facts(4,5)[of "hd cs"]
    by (auto simp: numeral_2_eq_2) (metis list.sel(1) take_Suc_Cons take_0)+
  have z: "takeWhile (isRadixDigit 10) d = d"
    using assms(2) isDigit_facts(7) by (simp add: list_all_iff)
  show ?thesis
    unfolding parseInt_def Let_def
    by (simp add: w hd x z assms(1))
qed

lemma digits_duration_in_range:
  assumes "snd (submitForm st) = Some fd" and "list_all isDigit (duration fd)"
  shows "durationInRange (duration fd)"
proof -
  have v: "checkValidity (formData st)" and f: "fd = formData st"
    using assms(1) by (auto simp: submitForm_def handleSubmit_def Let_def split: if_splits)
  have ne: "duration fd \<noteq> []"
    using v f by (auto simp: checkValidity_def durationInputValid_def valueAsNumber_def exponentOf_def Let_def)
  have "durationInputValid (duration fd)" using v f by (simp add: checkValidity_def)
  hence "1 \<le> real (radixValue 10 (duration fd)) \<and> real (radixValue 10 (duration fd)) \<le> 14"
    using valueAsNumber_digits[OF ne assms(2)] by (simp add: durationInputValid_def)
  thus ?thesis
    using parseInt_digits[OF ne assms(2)] by (simp add: durationInRange_def)
qed

text \<open>
  Claim C5: for every form state whose duration is not empty, the duration parses to an
  integer from 1 to 14 whenever the submission is accepted. The form declares this range
  on the duration input, and for a duration written with digits only every accepted
  submission keeps it (\<open>digits_duration_in_range\<close>). For a duration written with an
  exponent or a fraction the code does not: the input's validation and \<^verbatim>\<open>parseInt\<close>, the
  parser of \<^verbatim>\<open>generateCityGuide\<close>, read different numbers from the same text. The form
  accepts \<open>140e-1\<close>, whose value is 14, and \<^verbatim>\<open>parseInt\<close> reads 140 from it, the number of
  days then requested; it accepts \<open>0.5e1\<close>, whose value is 5, and \<^verbatim>\<open>parseInt\<close> reads 0. The
  duration \<open>99\<close> is refused by the form.
\<close>

theorem submitForm_exponent_duration:
  "snd (submitForm (initialTravelForm\<lparr>formData :=
          \<lparr>form_city = ''Rome'', form_country = ''Italy'', duration = ''140e-1''\<rparr>\<rparr>))
     = Some \<lparr>form_city = ''Rome'', form_country = ''Italy'', duration = ''140e-1''\<rparr>
   \<and> valueAsNumber ''140e-1'' = Some 14
   \<and> parseInt ''140e-1'' = Some 140
   \<and> numDays_of ''140e-1'' = 140
   \<and> \<not> durationInRange ''140e-1''
   \<and> snd (submitForm (initialTravelForm\<lparr>formData :=
          \<lparr>form_city = ''Rome'', form_country = ''Italy'', duration = ''0.5e1''\<rparr>\<rparr>))
     = Some \<lparr>form_city = ''Rome'', form_country = ''Italy'', duration = ''0.5e1''\<rparr>
   \<and> valueAsNumber ''0.5e1'' = Some 5
   \<and> parseInt ''0.5e1'' = Some 0
   \<and> \<not> durationInRange ''0.5e1''
   \<and> snd (submitForm (initialTravelForm\<lparr>formData :=
          \<lparr>form_city = ''Rome'', form_country = ''Italy'', duration = ''99''\<rparr>\<rparr>)) = None"
proof -
  have v1: "valueAsNumber ''140e-1'' = Some 14" by code_simp
  have v2: "valueAsNumber ''0.5e1'' = Some 5" by code_simp
  have v3: "valueAsNumber ''99'' = Some 99" by code_simp
  have p1: "parseInt ''140e-1'' = Some 140" by code_simp
  have p2: "parseInt ''0.5e1'' = Some 0" by code_simp
  have t: "trim ''Rome'' \<noteq> []" "trim ''Italy'' \<noteq> []"
    by (simp_all add: trim_def isWhiteSpace_def)
  have s: "snd (submitForm (initialTravelForm\<lparr>formData :=
             \<lparr>form_city = ''Rome'', form_country = ''Italy'', duration = d\<rparr>\<rparr>))
           = (if durationInputValid d
              then Some \<lparr>form_city = ''Rome'', form_country = ''Italy'', duration = d\<rparr> else None)" for d
    using t by (simp add: submitForm_def checkValidity_def handleSubmit_def Let_def)
  show ?thesis
    using v1 v2 v3 p1 p2
    by (simp add: s durationInputValid_def durationInRange_def numDays_of_def)
qed

section \<open>The guide request\<close>

lemma conforms_field:
  "conforms (OBJECT fs) p \<Longrightarrow> (k, sch) \<in> set fs \<Longrightarrow> conforms sch (getProp p k)"
  by (cases p) (auto simp: list_all_iff split: option.splits)

lemma conforms_STRING: "conforms STRING v \<Longrightarrow> \<exists>s. v = JStr s"
  by (cases v) auto

lemma conforms_ARRAY: "conforms (ARRAY sch) v \<Longrightarrow> \<exists>xs. v = JArr xs"
  by (cases v) auto

lemma conforms_OBJECT: "conforms (OBJECT fs) v \<Longrightarrow> \<exists>kvs. v = JObj kvs"
  by (cases v) auto

lemma js_or_truthy: "truthy a \<Longrightarrow> js_or a b = a"
  by (simp add: js_or_def)

lemma imageOf_rejected: "ai req = Inl e \<Longrightarrow> imageOf ai req = None"
  by (simp add: imageOf_def)

lemma generateCityGallery_map_filter:
  "generateCityGallery ai c k =
     List.map_filter (imageOf ai) [LandmarkRequest c k, FoodRequest c k, StreetLifeRequest c k]"
  by (auto simp: generateCityGallery_def List.map_filter_def)

text \<open>
  Claim C4, as stated, fails: the duration text \<open>0\<close> parses to the integer 0, and the
  guide is requested for 1 day, not for 0.
\<close>

theorem numDays_of_zero_counterexample:
  "parseInt ''0'' = Some 0 \<and> numDays_of ''0'' = 1 \<and> numDays_of ''0'' \<noteq> 0"
proof -
  have "parseInt ''0'' = Some 0" by code_simp
  thus ?thesis by (simp add: numDays_of_def)
qed

text \<open>
  Claim C4, amended. The duration is read with \<^verbatim>\<open>parseInt\<close>, and 1 is used when the text
  does not parse or parses to 0; a text that parses to an integer other than 0 is used
  as it is. For every city and country, Rome, Italy among them, the empty duration and
  the duration \<open>abc\<close> both give the request, and so the result, of the duration \<open>1\<close>,
  whatever the service answers.
\<close>

theorem numDays_of_cases:
  "numDays_of '''' = 1 \<and> numDays_of ''abc'' = 1
   \<and> (parseInt d = None \<or> parseInt d = Some 0 \<longrightarrow> numDays_of d = 1)
   \<and> (\<forall>n. parseInt d = Some n \<and> n \<noteq> 0 \<longrightarrow> numDays_of d = n)
   \<and> generateCityGuide ai JSON_parse currentDate c k ''''
       = generateCityGuide ai JSON_parse currentDate c k ''1''
   \<and> generateCityGuide ai JSON_parse currentDate c k ''abc''
       = generateCityGuide ai JSON_parse currentDate c k ''1''"
proof -
  have e: "parseInt '''' = None" by code_simp
  have a: "parseInt ''abc'' = None" by code_simp
  have o: "parseInt ''1'' = Some 1" by code_simp
  have n: "numDays_of '''' = 1" "numDays_of ''abc'' = 1" "numDays_of ''1'' = 1"
    using e a o by (simp_all add: numDays_of_def)
  have g: "generateCityGuide ai JSON_parse currentDate c k x
           = generateCityGuide ai JSON_parse currentDate c k ''1''"
    if "numDays_of x = 1" for x
    using that n(3) by (simp add: generateCityGuide_def)
  show ?thesis
    using n g[of "''''"] g[of "''abc''"] by (auto simp: numDays_of_def)
qed

theorem numDays_of_cases_witness:
  "parseInt ''7 days'' = Some 7 \<and> numDays_of ''7 days'' = 7
   \<and> parseInt ''-0'' = Some 0 \<and> numDays_of ''-0'' = 1"
proof -
  have a: "parseInt ''7 days'' = Some 7" by code_simp
  have b: "parseInt ''-0'' = Some 0" by code_simp
  show ?thesis
    using a b numDays_of_cases[of "''7 days''"] numDays_of_cases[of "''-0''"] by simp
qed

text \<open>
  Claim C2. For every guide response that the orchestrator accepts (the guide request
  resolves with a text that parses, and \<^verbatim>\<open>generateCityGuide\<close> returns), the merged guide
  has arrays for attractions, itinerary, local tips and gallery, empty when the response
  has no such property (for the gallery: when no gallery request gives an image); its
  weather is the documented default when the response has no weather, its coordinates
  are latitude 0 and longitude 0 when the response has no coordinates; and none of
  these fields is undefined.
\<close>

theorem merged_guide_shape:
  assumes "generateCityGuide ai JSON_parse currentDate (form_city fd) (form_country fd)
             (duration fd) = Inr g0"
      and "ai (GuideRequest currentDate (form_city fd) (form_country fd)
             (numDays_of (duration fd))) = Inr resp"
      and "response_text resp = Some jsonText"
      and "JSON_parse jsonText = Inr parsedData"
  shows "\<exists>g. app_data (handleFormSubmit ai JSON_parse currentDate st fd) = Some g
           \<and> isArray (attractions g) \<and> isArray (itinerary g) \<and> isArray (localTips g)
           \<and> (\<exists>gs. gallery g = Some gs)
           \<and> (getProp parsedData ''attractions'' = JUndefined \<longrightarrow> attractions g = JArr [])
           \<and> (getProp parsedData ''itinerary'' = JUndefined \<longrightarrow> itinerary g = JArr [])
           \<and> (getProp parsedData ''localTips'' = JUndefined \<longrightarrow> localTips g = JArr [])
           \<and> (imageOf ai (LandmarkRequest (form_city fd) (form_country fd)) = None
              \<and> imageOf ai (FoodRequest (form_city fd) (form_country fd)) = None
              \<and> imageOf ai (StreetLifeRequest (form_city fd) (form_country fd)) = None
              \<longrightarrow> gallery g = Some [])
           \<and> (getProp parsedData ''weather'' = JUndefined \<longrightarrow>
                weather g = JObj [(''temperature'', JStr ''N/A''), (''condition'', JStr ''Unknown''),
                                  (''packingSuggestion'', JStr ''Please check local forecast.'')])
           \<and> (getProp parsedData ''coordinates'' = JUndefined \<longrightarrow>
                coordinates g = JObj [(''lat'', JNum 0), (''lng'', JNum 0)])
           \<and> weather g \<noteq> JUndefined \<and> coordinates g \<noteq> JUndefined
           \<and> attractions g \<noteq> JUndefined \<and> itinerary g \<noteq> JUndefined
           \<and> localTips g \<noteq> JUndefined"
proof -
  have sd: "safeData (form_city fd) (form_country fd) parsedData = Inr g0"
    using assms by (simp add: generateCityGuide_def split: if_splits)
  hence nn: "parsedData \<noteq> JNull" "parsedData \<noteq> JUndefined"
    by (auto simp: safeData_def split: if_splits)
  have nu: "js_or a b \<noteq> JUndefined" if "b \<noteq> JUndefined" for a b
    using that by (cases a) (auto simp: js_or_def)
  have g0: "isArray (attractions g0)" "isArray (itinerary g0)" "isArray (localTips g0)"
       "getProp parsedData ''attractions'' = JUndefined \<longrightarrow> attractions g0 = JArr []"
       "getProp parsedData ''itinerary'' = JUndefined \<longrightarrow> itinerary g0 = JArr []"
       "getProp parsedData ''localTips'' = JUndefined \<longrightarrow> localTips g0 = JArr []"
       "getProp parsedData ''weather'' = JUndefined \<longrightarrow> weather g0 = defaultWeather"
       "getProp parsedData ''coordinates'' = JUndefined \<longrightarrow> coordinates g0 = defaultCoordinates"
       "weather g0 = js_or (getProp parsedData ''weather'') defaultWeather"
       "coordinates g0 = js_or (getProp parsedData ''coordinates'') defaultCoordinates"
    using sd nn by (auto simp: safeData_def js_or_def)
  have und: "weather g0 \<noteq> JUndefined" "coordinates g0 \<noteq> JUndefined"
    using g0(9,10) by (simp_all add: nu defaultWeather_def defaultCoordinates_def)
  have arr: "attractions g0 \<noteq> JUndefined" "itinerary g0 \<noteq> JUndefined" "localTips g0 \<noteq> JUndefined"
    using g0(1-3) by auto
  let ?g = "g0\<lparr>imageUrl := generateCityImage ai (form_city fd) (form_country fd),
               gallery := Some (generateCityGallery ai (form_city fd) (form_country fd))\<rparr>"
  have m: "app_data (handleFormSubmit ai JSON_parse currentDate st fd) = Some ?g"
    using assms(1) by (simp add: handleFormSubmit_def Let_def)
  have ga: "imageOf ai (LandmarkRequest (form_city fd) (form_country fd)) = None
              \<and> imageOf ai (FoodRequest (form_city fd) (form_country fd)) = None
              \<and> imageOf ai (StreetLifeRequest (form_city fd) (form_country fd)) = None
              \<longrightarrow> gallery ?g = Some []"
    by (simp add: generateCityGallery_def)
  show ?thesis
    using m g0(1-8) und arr ga
    by (simp add: defaultWeather_def defaultCoordinates_def)
qed

theorem merged_guide_shape_witness:
  "generateCityGuide (ai_text_only ''{}'') parse_empty_object ''November 2026'' ''Rome'' ''Italy'' ''3''
     = Inr \<lparr>guide_city = JStr ''Rome'', guide_country = JStr ''Italy'',
            coordinates = JObj [(''lat'', JNum 0), (''lng'', JNum 0)],
            introduction = JStr ''Information currently unavailable.'',
            weather = JObj [(''temperature'', JStr ''N/A''), (''condition'', JStr ''Unknown''),
                            (''packingSuggestion'', JStr ''Please check local forecast.'')],
            attractions = JArr [], mapContext = JStr ''Map details unavailable.'',
            itinerary = JArr [], localTips = JArr [], imageUrl = None, gallery = None\<rparr>
   \<and> (\<exists>g. app_data (handleFormSubmit (ai_text_only ''{}'') parse_empty_object ''November 2026''
                initialApp \<lparr>form_city = ''Rome'', form_country = ''Italy'', duration = ''3''\<rparr>) = Some g
          \<and> weather g = JObj [(''temperature'', JStr ''N/A''), (''condition'', JStr ''Unknown''),
                              (''packingSuggestion'', JStr ''Please check local forecast.'')]
          \<and> gallery g = Some [])"
proof -
  let ?fd = "\<lparr>form_city = ''Rome'', form_country = ''Italy'', duration = ''3''\<rparr>"
  let ?ai = "ai_text_only ''{}''"
  have g: "generateCityGuide ?ai parse_empty_object ''November 2026'' (form_city ?fd) (form_country ?fd) (duration ?fd)
     = Inr \<lparr>guide_city = JStr ''Rome'', guide_country = JStr ''Italy'',
            coordinates = JObj [(''lat'', JNum 0), (''lng'', JNum 0)],
            introduction = JStr ''Information currently unavailable.'',
            weather = JObj [(''temperature'', JStr ''N/A''), (''condition'', JStr ''Unknown''),
                            (''packingSuggestion'', JStr ''Please check local forecast.'')],
            attractions = JArr [], mapContext = JStr ''Map details unavailable.'',
            itinerary = JArr [], localTips = JArr [], imageUrl = None, gallery = None\<rparr>"
    by (simp add: generateCityGuide_def ai_text_only_def parse_empty_object_def safeData_def
        js_or_def defaultWeather_def defaultCoordinates_def)
  have r: "?ai (GuideRequest ''November 2026'' (form_city ?fd) (form_country ?fd) (numDays_of (duration ?fd)))
            = Inr \<lparr>response_text = Some ''{}'', parts = None\<rparr>"
    by (simp add: ai_text_only_def)
  have t: "response_text \<lparr>response_text = Some ''{}'', parts = None\<rparr> = Some ''{}''" by simp
  have p: "parse_empty_object ''{}'' = Inr (JObj [])" by (simp add: parse_empty_object_def)
  have i: "imageOf ?ai (LandmarkRequest c k) = None" "imageOf ?ai (FoodRequest c k) = None"
          "imageOf ?ai (StreetLifeRequest c k) = None" for c k
    by (simp_all add: imageOf_def ai_text_only_def)
  show ?thesis
    using merged_guide_shape[OF g r t p, of initialApp] g i by auto
qed

text \<open>
  Claim C3, as stated, fails: a response that has every property of the schema with the
  declared type, and whose introduction is the empty string, is not reproduced; its
  introduction is replaced by the default text.
\<close>

theorem safeData_empty_string_counterexample:
  "conforms responseSchema (example_response '''')
   \<and> getProp (example_response '''') ''introduction'' = JStr ''''
   \<and> map_sum id introduction (safeData ''Rome'' ''Italy'' (example_response ''''))
        = Inr (JStr ''Information currently unavailable.'')"
  by (simp add: responseSchema_def coordinatesSchema_def example_response_def safeData_def js_or_def)

text \<open>
  Claim C3, amended. For every response that has every property of the response schema,
  each of the declared type, and whose city, country, introduction and map context are
  not the empty string, the sanitised guide has exactly the nine properties of the
  response, unchanged, whatever the city and country of the form are.
\<close>

theorem safeData_identity:
  assumes "conforms responseSchema p"
      and "getProp p ''city'' \<noteq> JStr []" and "getProp p ''country'' \<noteq> JStr []"
      and "getProp p ''introduction'' \<noteq> JStr []" and "getProp p ''mapContext'' \<noteq> JStr []"
  shows "safeData c k p =
           Inr \<lparr>guide_city = getProp p ''city'', guide_country = getProp p ''country'',
                coordinates = getProp p ''coordinates'',
                introduction = getProp p ''introduction'',
                weather = getProp p ''weather'', attractions = getProp p ''attractions'',
                mapContext = getProp p ''mapContext'', itinerary = getProp p ''itinerary'',
                localTips = getProp p ''localTips'', imageUrl = None, gallery = None\<rparr>"
proof -
  note f = conforms_field[OF assms(1)[unfolded responseSchema_def]]
  have str: "truthy (getProp p x)"
    if "(x, STRING) \<in> set [(''city'', STRING), (''country'', STRING), (''introduction'', STRING), (''mapContext'', STRING)]"
    for x
  proof -
    have "conforms STRING (getProp p x)" using that by (intro f) auto
    then obtain s where "getProp p x = JStr s" using conforms_STRING by blast
    thus ?thesis using that assms(2-5) by auto
  qed
  have "conforms coordinatesSchema (getProp p ''coordinates'')" by (intro f) simp
  hence co: "truthy (getProp p ''coordinates'')"
    unfolding coordinatesSchema_def using conforms_OBJECT by fastforce
  have "\<exists>kvs. getProp p ''weather'' = JObj kvs" by (rule conforms_OBJECT, rule f) simp
  hence we: "truthy (getProp p ''weather'')" by auto
  have "\<exists>xs. getProp p ''attractions'' = JArr xs" by (rule conforms_ARRAY, rule f) simp
  hence at: "isArray (getProp p ''attractions'')" by auto
  have "\<exists>xs. getProp p ''itinerary'' = JArr xs" by (rule conforms_ARRAY, rule f) simp
  hence it: "isArray (getProp p ''itinerary'')" by auto
  have "\<exists>xs. getProp p ''localTips'' = JArr xs" by (rule conforms_ARRAY, rule f) simp
  hence lt: "isArray (getProp p ''localTips'')" by auto
  obtain kvs where "p = JObj kvs"
    using assms(1) conforms_OBJECT unfolding responseSchema_def by blast
  hence nn: "p \<noteq> JNull" "p \<noteq> JUndefined" by simp_all
  show ?thesis
    using nn co we at it lt str[of "''city''"] str[of "''country''"] str[of "''introduction''"]
      str[of "''mapContext''"]
    by (simp add: safeData_def js_or_truthy)
qed

theorem safeData_identity_witness:
  "conforms responseSchema (example_response ''The eternal city.'')
   \<and> safeData ''rome'' ''italy'' (example_response ''The eternal city.'') =
       Inr \<lparr>guide_city = JStr ''Rome'', guide_country = JStr ''Italy'',
            coordinates = getProp (example_response ''The eternal city.'') ''coordinates'',
            introduction = JStr ''The eternal city.'',
            weather = getProp (example_response ''The eternal city.'') ''weather'',
            attractions = getProp (example_response ''The eternal city.'') ''attractions'',
            mapContext = JStr ''Seven hills'',
            itinerary = getProp (example_response ''The eternal city.'') ''itinerary'',
            localTips = getProp (example_response ''The eternal city.'') ''localTips'',
            imageUrl = None, gallery = None\<rparr>"
proof -
  let ?p = "example_response ''The eternal city.''"
  have c: "conforms responseSchema ?p"
    by (simp add: responseSchema_def coordinatesSchema_def example_response_def)
  have s: "getProp ?p ''city'' = JStr ''Rome''" "getProp ?p ''country'' = JStr ''Italy''"
          "getProp ?p ''introduction'' = JStr ''The eternal city.''"
          "getProp ?p ''mapContext'' = JStr ''Seven hills''"
    by (simp_all add: example_response_def)
  show ?thesis
    using c safeData_identity[OF c, of "''rome''" "''italy''"] s by simp
qed

section \<open>The orchestration\<close>

text \<open>
  Claim C1. For every submission: when the guide request is rejected, returns no text,
  or returns a text that does not parse, \<^verbatim>\<open>generateCityGuide\<close> fails, and whenever it fails
  the application ends with the error message and its previous data, not loading.
  When it succeeds, the application ends with the guide merged with the hero image and
  the gallery, the gallery being the images of the gallery requests that gave one, in
  the order of the prompts; a rejected image request counts as no image. In
  particular, with the hero image rejected, one gallery request rejected and the two
  others giving images, the application ends with no error, an absent \<open>imageUrl\<close> and
  a gallery of exactly these two images.
\<close>

theorem handleFormSubmit_failure_isolation:
  "(let c = form_city fd; k = form_country fd;
        guide = generateCityGuide ai JSON_parse currentDate c k (duration fd);
        guideRequest = GuideRequest currentDate c k (numDays_of (duration fd));
        settled = handleFormSubmit ai JSON_parse currentDate st fd
    in (\<forall>e. ai guideRequest = Inl e \<longrightarrow> guide = Inl e)
     \<and> (\<forall>r. ai guideRequest = Inr r \<and> (response_text r = None \<or> response_text r = Some [])
            \<longrightarrow> guide = Inl NoTextReturned)
     \<and> (\<forall>r t e. ai guideRequest = Inr r \<and> response_text r = Some t \<and> t \<noteq> []
              \<and> JSON_parse t = Inl e \<longrightarrow> guide = Inl e)
     \<and> (\<forall>e. guide = Inl e \<longrightarrow>
            settled = st\<lparr>loading := False,
              error := Some ''Failed to generate guide. Please check your API key and try again.''\<rparr>)
     \<and> (\<forall>g. guide = Inr g \<longrightarrow>
            settled = st\<lparr>app_data := Some (g\<lparr>imageUrl := imageOf ai (CityImageRequest c k),
                             gallery := Some (List.map_filter (imageOf ai)
                               [LandmarkRequest c k, FoodRequest c k, StreetLifeRequest c k])\<rparr>),
                         loading := False, error := None\<rparr>)
     \<and> (\<forall>req e. ai req = Inl e \<longrightarrow> imageOf ai req = None)
     \<and> (\<forall>g e e' u v. guide = Inr g \<and> ai (CityImageRequest c k) = Inl e
            \<and> ((ai (LandmarkRequest c k) = Inl e' \<and> imageOf ai (FoodRequest c k) = Some u
                  \<and> imageOf ai (StreetLifeRequest c k) = Some v)
               \<or> (imageOf ai (LandmarkRequest c k) = Some u \<and> ai (FoodRequest c k) = Inl e'
                  \<and> imageOf ai (StreetLifeRequest c k) = Some v)
               \<or> (imageOf ai (LandmarkRequest c k) = Some u \<and> imageOf ai (FoodRequest c k) = Some v
                  \<and> ai (StreetLifeRequest c k) = Inl e'))
            \<longrightarrow> error settled = None
              \<and> (\<exists>d. app_data settled = Some d \<and> imageUrl d = None \<and> gallery d = Some [u, v])))"
proof -
  let ?c = "form_city fd" and ?k = "form_country fd"
  let ?guide = "generateCityGuide ai JSON_parse currentDate ?c ?k (duration fd)"
  let ?req = "GuideRequest currentDate ?c ?k (numDays_of (duration fd))"
  let ?settled = "handleFormSubmit ai JSON_parse currentDate st fd"
  have a: "\<forall>e. ai ?req = Inl e \<longrightarrow> ?guide = Inl e"
    by (simp add: generateCityGuide_def)
  have b: "\<forall>r. ai ?req = Inr r \<and> (response_text r = None \<or> response_text r = Some [])
            \<longrightarrow> ?guide = Inl NoTextReturned"
    by (auto simp: generateCityGuide_def)
  have c: "\<forall>r t e. ai ?req = Inr r \<and> response_text r = Some t \<and> t \<noteq> []
              \<and> JSON_parse t = Inl e \<longrightarrow> ?guide = Inl e"
    by (auto simp: generateCityGuide_def)
  have d: "\<forall>e. ?guide = Inl e \<longrightarrow>
            ?settled = st\<lparr>loading := False,
              error := Some ''Failed to generate guide. Please check your API key and try again.''\<rparr>"
    by (simp add: handleFormSubmit_def Let_def)
  have e: "\<forall>g. ?guide = Inr g \<longrightarrow>
            ?settled = st\<lparr>app_data := Some (g\<lparr>imageUrl := imageOf ai (CityImageRequest ?c ?k),
                             gallery := Some (List.map_filter (imageOf ai)
                               [LandmarkRequest ?c ?k, FoodRequest ?c ?k, StreetLifeRequest ?c ?k])\<rparr>),
                         loading := False, error := None\<rparr>"
    by (simp add: handleFormSubmit_def Let_def generateCityImage_def generateCityGallery_map_filter)
  have f: "\<forall>req e. ai req = Inl e \<longrightarrow> imageOf ai req = None"
    by (simp add: imageOf_rejected)
  have g: "\<forall>g e e' u v. ?guide = Inr g \<and> ai (CityImageRequest ?c ?k) = Inl e
            \<and> ((ai (LandmarkRequest ?c ?k) = Inl e' \<and> imageOf ai (FoodRequest ?c ?k) = Some u
                  \<and> imageOf ai (StreetLifeRequest ?c ?k) = Some v)
               \<or> (imageOf ai (LandmarkRequest ?c ?k) = Some u \<and> ai (FoodRequest ?c ?k) = Inl e'
                  \<and> imageOf ai (StreetLifeRequest ?c ?k) = Some v)
               \<or> (imageOf ai (LandmarkRequest ?c ?k) = Some u \<and> imageOf ai (FoodRequest ?c ?k) = Some v
                  \<and> ai (StreetLifeRequest ?c ?k) = Inl e'))
            \<longrightarrow> error ?settled = None
              \<and> (\<exists>d. app_data ?settled = Some d \<and> imageUrl d = None \<and> gallery d = Some [u, v])"
    using e by (auto simp: imageOf_rejected List.map_filter_def)
  show ?thesis
    unfolding Let_def using a b c d e f g by blast
qed

theorem handleFormSubmit_failure_isolation_witness:
  "error (handleFormSubmit ai_two_images parse_empty_object ''November 2026'' initialApp
            \<lparr>form_city = ''Rome'', form_country = ''Italy'', duration = ''3''\<rparr>) = None
   \<and> (\<exists>d. app_data (handleFormSubmit ai_two_images parse_empty_object ''November 2026'' initialApp
            \<lparr>form_city = ''Rome'', form_country = ''Italy'', duration = ''3''\<rparr>) = Some d
          \<and> imageUrl d = None
          \<and> gallery d = Some [''data:image/png;base64,AAAA'', ''data:image/png;base64,BBBB''])
   \<and> handleFormSubmit (\<lambda>req. Inl (RequestFailed ''offline'')) parse_empty_object ''November 2026''
         initialApp \<lparr>form_city = ''Rome'', form_country = ''Italy'', duration = ''3''\<rparr>
       = \<lparr>app_data = None, loading = False,
          error = Some ''Failed to generate guide. Please check your API key and try again.''\<rparr>"
proof -
  let ?fd = "\<lparr>form_city = ''Rome'', form_country = ''Italy'', duration = ''3''\<rparr>"
  have g: "\<exists>g. generateCityGuide ai_two_images parse_empty_object ''November 2026''
             ''Rome'' ''Italy'' ''3'' = Inr g"
    by (simp add: generateCityGuide_def ai_two_images_def parse_empty_object_def safeData_def)
  have h: "ai_two_images (CityImageRequest ''Rome'' ''Italy'') = Inl (RequestFailed ''quota'')"
          "ai_two_images (FoodRequest ''Rome'' ''Italy'') = Inl (RequestFailed ''quota'')"
    by (simp_all add: ai_two_images_def)
  have i: "imageOf ai_two_images (LandmarkRequest ''Rome'' ''Italy'') = Some ''data:image/png;base64,AAAA''"
          "imageOf ai_two_images (StreetLifeRequest ''Rome'' ''Italy'') = Some ''data:image/png;base64,BBBB''"
    by (simp_all add: imageOf_def ai_two_images_def image_response_def)
  have ok: "error (handleFormSubmit ai_two_images parse_empty_object ''November 2026'' initialApp ?fd) = None
   \<and> (\<exists>d. app_data (handleFormSubmit ai_two_images parse_empty_object ''November 2026'' initialApp ?fd) = Some d
          \<and> imageUrl d = None
          \<and> gallery d = Some [''data:image/png;base64,AAAA'', ''data:image/png;base64,BBBB''])"
    using handleFormSubmit_failure_isolation[of ?fd ai_two_images parse_empty_object
        "''November 2026''" initialApp] g h i
    unfolding Let_def by (simp del: One_nat_def) blast
  have bad: "handleFormSubmit (\<lambda>req. Inl (RequestFailed ''offline'')) parse_empty_object ''November 2026''
         initialApp ?fd
       = \<lparr>app_data = None, loading = False,
          error = Some ''Failed to generate guide. Please check your API key and try again.''\<rparr>"
    using handleFormSubmit_failure_isolation[of ?fd "\<lambda>req. Inl (RequestFailed ''offline'')"
        parse_empty_object "''November 2026''" initialApp]
    unfolding Let_def by (simp add: initialApp_def)
  show ?thesis using ok bad by blast
qed

section \<open>The jump to the map\<close>

text \<open>
  Claim C9. For every pair of coordinates and every map widget, \<^verbatim>\<open>jumpToMap\<close> makes the
  map tab the active tab, leaves the rest of the state as it was, and schedules exactly
  one callback, after 100 ms; run on any later state in which no map is mounted, that
  callback returns the state unchanged and raises nothing, whatever the widget's
  \<^verbatim>\<open>setView\<close> would do.
\<close>

theorem jumpToMap_safe:
  "activeTab (fst (jumpToMap setView st lat lng)) = map_tab
   \<and> mapStyle (fst (jumpToMap setView st lat lng)) = mapStyle st
   \<and> mapRef (fst (jumpToMap setView st lat lng)) = mapRef st
   \<and> (\<exists>callback. snd (jumpToMap setView st lat lng) = [(100, callback)]
         \<and> (\<forall>later. mapRef later = None \<longrightarrow> callback later = Inr later))"
  by (simp add: jumpToMap_def jumpToMap_timeout_def)

theorem jumpToMap_safe_witness:
  "mapRef (fst (jumpToMap setView_throws never_mounted 48.8566 2.3522)) = None
   \<and> activeTab (fst (jumpToMap setView_throws never_mounted 48.8566 2.3522)) = map_tab
   \<and> map (\<lambda>t. (fst t, snd t (fst (jumpToMap setView_throws never_mounted 48.8566 2.3522))))
        (snd (jumpToMap setView_throws never_mounted 48.8566 2.3522))
      = [(100, Inr (fst (jumpToMap setView_throws never_mounted 48.8566 2.3522)))]"
proof -
  let ?j = "jumpToMap setView_throws never_mounted 48.8566 2.3522"
  have n: "mapRef (fst ?j) = None"
    using jumpToMap_safe[of setView_throws never_mounted "48.8566" "2.3522"]
    by (simp add: never_mounted_def)
  obtain callback where c: "snd ?j = [(100, callback)]"
      and s: "\<forall>later. mapRef later = None \<longrightarrow> callback later = Inr later"
    using jumpToMap_safe[of setView_throws never_mounted "48.8566" "2.3522"] by blast
  have "callback (fst ?j) = Inr (fst ?j)" using s n by blast
  thus ?thesis
    using n c jumpToMap_safe[of setView_throws never_mounted "48.8566" "2.3522"] by simp
qed

end
